theory Spec2Isabelle
  imports Main "HOL-Library.Multiset"
begin

section \<open>Data model\<close>

text \<open>
  The form state of \<^verbatim>\<open>App.jsx\<close> (\<^verbatim>\<open>initialForm\<close>, lines 15-24): eight text fields. The row
  sent to the store on submit is the spread of the form plus \<^verbatim>\<open>status\<close> (lines 63-66), and a
  row of table \<^verbatim>\<open>fila\<close> as the store returns it carries in addition the identifier and the
  two timestamps the code reads (\<^verbatim>\<open>next.id\<close>, \<^verbatim>\<open>chegada_at\<close>, \<^verbatim>\<open>chamado_at\<close>). The identifier
  type \<open>'i\<close> and the timestamp type \<open>'t\<close> are opaque to the component and stay parameters.
  The column \<^verbatim>\<open>id\<close> is named \<open>id_col\<close> here, since \<open>id\<close> is the identity function of HOL.
\<close>

record draft =
  placa_cavalo :: string
  placa_carreta :: string
  motorista :: string
  origem :: string
  destino :: string
  tipo :: string
  prioridade :: string
  observacoes :: string

record new_row = draft +
  status :: string

record ('i, 't) vehicle = new_row +
  id_col :: 'i
  chegada_at :: 't
  chamado_at :: "'t option"

text \<open>The object inserted into table \<^verbatim>\<open>historico\<close> (lines 94-99).\<close>

record ('i, 't) historico =
  veiculo_id :: 'i
  acao :: string
  at :: 't
  payload :: "('i, 't) vehicle"

text \<open>The error object of a store response; the component reads only its \<^verbatim>\<open>message\<close>.\<close>

datatype store_error = Store_error (message: string)

text \<open>The component state: the three \<^verbatim>\<open>useState\<close> cells (lines 27-29).\<close>

record ('i, 't) app_state =
  form :: draft
  fila :: "('i, 't) vehicle list"
  loading :: bool

definition initialForm :: draft where
  "initialForm = \<lparr>placa_cavalo = '''', placa_carreta = '''', motorista = '''', origem = '''',
     destino = '''', tipo = '''', prioridade = '''', observacoes = ''''\<rparr>"

definition initial_state :: "('i, 't) app_state" where
  "initial_state = \<lparr>form = initialForm, fila = [], loading = False\<rparr>"

section \<open>Remote requests and console output\<close>

text \<open>
  The four query shapes the component builds on the store client:
  \<^item> \<open>Select_eq_order tbl col val ord asc\<close>:
    \<^verbatim>\<open>from(tbl).select('*').eq(col, val).order(ord, {ascending: asc})\<close>;
  \<^item> \<open>Insert_select tbl row\<close>: \<^verbatim>\<open>from(tbl).insert([row]).select('*')\<close>;
  \<^item> \<open>Update_eq_id tbl st ts i\<close>:
    \<^verbatim>\<open>from(tbl).update({status: st, chamado_at: ts}).eq('id', i)\<close>;
  \<^item> \<open>Insert_row tbl h\<close>: \<^verbatim>\<open>from(tbl).insert([h])\<close>.
\<close>

datatype ('i, 't) request =
    Select_eq_order string string string string bool
  | Insert_select string new_row
  | Update_eq_id string string 't 'i
  | Insert_row string "('i, 't) historico"

text \<open>
  What a handler does to the outside world, in order: a request sent to the store, or a
  \<^verbatim>\<open>console.error(prefix, message)\<close> line, whose message is \<open>None\<close> when the source
  passes \<^verbatim>\<open>undefined\<close> (\<^verbatim>\<open>error?.message\<close> on a null error).
\<close>

datatype ('i, 't) effect =
    Call "('i, 't) request"
  | Console_error string "string option"

text \<open>The log prefixes; the accented letters are their UTF-8 bytes.\<close>

definition erro_buscar_fila :: string where
  "erro_buscar_fila = ''Erro ao buscar fila:''"

definition erro_inserir_veiculo :: string where
  "erro_inserir_veiculo = ''Erro ao inserir ve'' @ [CHR 0xC3, CHR 0xAD] @ ''culo:''"

definition erro_chamar_veiculo :: string where
  "erro_chamar_veiculo = ''Erro ao chamar ve'' @ [CHR 0xC3, CHR 0xAD] @ ''culo:''"

definition erro_registrar_historico :: string where
  "erro_registrar_historico = ''Erro ao registrar hist'' @ [CHR 0xC3, CHR 0xB3] @ ''rico:''"

text \<open>The only exception the component can raise: a property read on \<^verbatim>\<open>undefined\<close>.\<close>

datatype js_error = TypeError

section \<open>The handlers, split at their awaits\<close>

text \<open>
  Each \<^verbatim>\<open>async\<close> function runs to its first \<^verbatim>\<open>await\<close> when it is called, and is resumed with
  the store's response. A piece below is the code between two suspension points; it takes
  the component state at that moment (the \<^verbatim>\<open>setX(prev => ...)\<close> updates act on the current
  state) and returns the new state with the effects it produced. A handler is called from
  the latest render, so the \<^verbatim>\<open>form\<close> and \<^verbatim>\<open>fila\<close> of its closure are those of the state it
  is called in. The store client reports a failure in the \<^verbatim>\<open>error\<close> of its response and
  does not throw.
\<close>

subsection \<open>\<^verbatim>\<open>fetchQueue\<close> (lines 33-46)\<close>

definition fetchQueue_start ::
  "('i, 't) app_state \<Rightarrow> ('i, 't) app_state \<times> ('i, 't) effect list" where
  "fetchQueue_start s =
     (s\<lparr>loading := True\<rparr>,
      [Call (Select_eq_order ''fila'' ''status'' ''Na fila'' ''chegada_at'' True)])"

definition fetchQueue_resume ::
  "('i, 't) app_state \<Rightarrow> ('i, 't) vehicle list option \<Rightarrow> store_error option
     \<Rightarrow> ('i, 't) app_state \<times> ('i, 't) effect list" where
  "fetchQueue_resume s data error =
     (case error of
        None \<Rightarrow> (s\<lparr>fila := (case data of None \<Rightarrow> [] | Some rows \<Rightarrow> rows), loading := False\<rparr>, [])
      | Some e \<Rightarrow> (s\<lparr>loading := False\<rparr>, [Console_error erro_buscar_fila (Some (message e))]))"

definition fetchQueue ::
  "('i, 't) app_state \<Rightarrow> ('i, 't) vehicle list option \<Rightarrow> store_error option
     \<Rightarrow> ('i, 't) app_state \<times> ('i, 't) effect list" where
  "fetchQueue s data error =
     (let (s1, t1) = fetchQueue_start s;
          (s2, t2) = fetchQueue_resume s1 data error
      in (s2, t1 @ t2))"

subsection \<open>\<^verbatim>\<open>handleChange\<close> (lines 51-53)\<close>

datatype field =
    Placa_cavalo | Placa_carreta | Motorista | Origem | Destino | Tipo | Prioridade
  | Observacoes

fun set_field :: "field \<Rightarrow> string \<Rightarrow> draft \<Rightarrow> draft" where
  "set_field Placa_cavalo v d = d\<lparr>placa_cavalo := v\<rparr>"
| "set_field Placa_carreta v d = d\<lparr>placa_carreta := v\<rparr>"
| "set_field Motorista v d = d\<lparr>motorista := v\<rparr>"
| "set_field Origem v d = d\<lparr>origem := v\<rparr>"
| "set_field Destino v d = d\<lparr>destino := v\<rparr>"
| "set_field Tipo v d = d\<lparr>tipo := v\<rparr>"
| "set_field Prioridade v d = d\<lparr>prioridade := v\<rparr>"
| "set_field Observacoes v d = d\<lparr>observacoes := v\<rparr>"

definition handleChange ::
  "field \<Rightarrow> string \<Rightarrow> ('i, 't) app_state \<Rightarrow> ('i, 't) app_state" where
  "handleChange f v s = s\<lparr>form := set_field f v (form s)\<rparr>"

subsection \<open>\<^verbatim>\<open>handleSubmit\<close> (lines 56-77)\<close>

text \<open>\<^verbatim>\<open>{...form, status: 'Na fila'}\<close>: the form's fields, then the status.\<close>

definition row_of_form :: "draft \<Rightarrow> new_row" where
  "row_of_form d = draft.extend d (new_row.fields ''Na fila'')"

definition handleSubmit_start ::
  "('i, 't) app_state \<Rightarrow> ('i, 't) app_state \<times> ('i, 't) effect list" where
  "handleSubmit_start s =
     (s\<lparr>loading := True\<rparr>, [Call (Insert_select ''fila'' (row_of_form (form s)))])"

text \<open>
  \<^verbatim>\<open>!error && data\<close> holds for every array, also the empty one, whose \<^verbatim>\<open>data[0]\<close> is
  \<^verbatim>\<open>undefined\<close>: the queue then holds a non-entry, and the next render throws at
  \<^verbatim>\<open>item.id\<close> (line 170).
\<close>

definition handleSubmit_resume ::
  "('i, 't) app_state \<Rightarrow> ('i, 't) vehicle list option \<Rightarrow> store_error option
     \<Rightarrow> js_error + ('i, 't) app_state \<times> ('i, 't) effect list" where
  "handleSubmit_resume s data error =
     (case (error, data) of
        (None, Some []) \<Rightarrow> Inl TypeError
      | (None, Some (r # _)) \<Rightarrow>
          Inr (s\<lparr>fila := fila s @ [r], form := initialForm, loading := False\<rparr>, [])
      | (_, _) \<Rightarrow>
          Inr (s\<lparr>loading := False\<rparr>,
               [Console_error erro_inserir_veiculo (map_option message error)]))"

definition handleSubmit ::
  "('i, 't) app_state \<Rightarrow> ('i, 't) vehicle list option \<Rightarrow> store_error option
     \<Rightarrow> js_error + ('i, 't) app_state \<times> ('i, 't) effect list" where
  "handleSubmit s data error =
     (let (s1, t1) = handleSubmit_start s
      in case handleSubmit_resume s1 data error of
           Inl x \<Rightarrow> Inl x
         | Inr (s2, t2) \<Rightarrow> Inr (s2, t1 @ t2))"

subsection \<open>\<^verbatim>\<open>handleCallNext\<close> (lines 80-110)\<close>

text \<open>
  Up to the first \<^verbatim>\<open>await\<close> (lines 81-89): the early return on an empty queue is \<open>None\<close>;
  otherwise the head is kept as \<^verbatim>\<open>next\<close>, and \<open>now\<close> is the clock reading of line 84.
\<close>

definition handleCallNext_start ::
  "('i, 't) app_state \<Rightarrow> 't
     \<Rightarrow> (('i, 't) app_state \<times> ('i, 't) effect list \<times> ('i, 't) vehicle) option" where
  "handleCallNext_start s now =
     (case fila s of
        [] \<Rightarrow> None
      | next # _ \<Rightarrow>
          Some (s\<lparr>loading := True\<rparr>,
                [Call (Update_eq_id ''fila'' ''Chamado'' now (id_col next))], next))"

text \<open>Resumed with the update's response: the insert of lines 91-100 is sent at once.\<close>

definition handleCallNext_insert ::
  "('i, 't) vehicle \<Rightarrow> 't \<Rightarrow> ('i, 't) effect list" where
  "handleCallNext_insert next now =
     [Call (Insert_row ''historico''
        \<lparr>veiculo_id = id_col next, acao = ''Chamado'', at = now, payload = next\<rparr>)]"

text \<open>Resumed with the insert's response: lines 101-109.\<close>

definition handleCallNext_finish ::
  "('i, 't) app_state \<Rightarrow> store_error option \<Rightarrow> store_error option
     \<Rightarrow> ('i, 't) app_state \<times> ('i, 't) effect list" where
  "handleCallNext_finish s updateError historicoError =
     (s\<lparr>fila := drop 1 (fila s), loading := False\<rparr>,
      (case updateError of
         None \<Rightarrow> []
       | Some e \<Rightarrow> [Console_error erro_chamar_veiculo (Some (message e))]) @
      (case historicoError of
         None \<Rightarrow> []
       | Some e \<Rightarrow> [Console_error erro_registrar_historico (Some (message e))]))"

definition handleCallNext ::
  "('i, 't) app_state \<Rightarrow> 't \<Rightarrow> store_error option \<Rightarrow> store_error option
     \<Rightarrow> ('i, 't) app_state \<times> ('i, 't) effect list" where
  "handleCallNext s now updateError historicoError =
     (case handleCallNext_start s now of
        None \<Rightarrow> (s, [])
      | Some (s1, t1, next) \<Rightarrow>
          (let t2 = handleCallNext_insert next now;
               (s3, t3) = handleCallNext_finish s1 updateError historicoError
           in (s3, t1 @ t2 @ t3)))"

text \<open>The requests among the effects, in the order they were sent.\<close>

fun calls :: "('i, 't) effect list \<Rightarrow> ('i, 't) request list" where
  "calls [] = []"
| "calls (Call q # es) = q # calls es"
| "calls (Console_error _ _ # es) = calls es"

fun logs :: "('i, 't) effect list \<Rightarrow> (string \<times> string option) list" where
  "logs [] = []"
| "logs (Call _ # es) = logs es"
| "logs (Console_error p m # es) = (p, m) # logs es"

section \<open>The rendered controls\<close>

text \<open>
  The handlers are closures of the component and are reached only through the elements
  it renders: \<^verbatim>\<open><form onSubmit={handleSubmit}>\<close> with its submit button
  \<^verbatim>\<open>disabled={loading}\<close> (line 159) and its first input \<^verbatim>\<open>required\<close> with value
  \<^verbatim>\<open>form.placa_cavalo\<close> (lines 117-122), and the call button
  \<^verbatim>\<open>disabled={loading || fila.length === 0}\<close> (line 163). A disabled button dispatches
  nothing, and a form with an empty required field fails validation, so that its submit
  event is never raised.
\<close>

definition submit_disabled :: "('i, 't) app_state \<Rightarrow> bool" where
  "submit_disabled s = loading s"

definition placa_cavalo_required :: "draft \<Rightarrow> bool" where
  "placa_cavalo_required d = (placa_cavalo d \<noteq> '''')"

definition call_next_disabled :: "('i, 't) app_state \<Rightarrow> bool" where
  "call_next_disabled s = (loading s \<or> fila s = [])"

text \<open>A submission of the form, from the attempt to the end of \<open>handleSubmit\<close>.\<close>

definition form_onSubmit ::
  "('i, 't) app_state \<Rightarrow> ('i, 't) vehicle list option \<Rightarrow> store_error option
     \<Rightarrow> js_error + ('i, 't) app_state \<times> ('i, 't) effect list" where
  "form_onSubmit s data error =
     (if submit_disabled s \<or> \<not> placa_cavalo_required (form s) then Inr (s, [])
      else handleSubmit s data error)"

section \<open>The component as a transition system\<close>

text \<open>
  An operation in flight is a handler suspended at an \<^verbatim>\<open>await\<close>, with the local variables
  the rest of its body reads: \<^verbatim>\<open>next\<close> and \<^verbatim>\<open>now\<close> while the update is awaited,
  \<^verbatim>\<open>updateError\<close> while the history insert is.
\<close>

datatype ('i, 't) pending =
    Await_select
  | Await_insert
  | Await_update "('i, 't) vehicle" 't
  | Await_historico "store_error option"

text \<open>
  A store response: \<open>Rows data error\<close> where the source destructures \<^verbatim>\<open>{ data, error }\<close>,
  \<open>Ack error\<close> where it reads the error alone.
\<close>

datatype ('i, 't) response =
    Rows "('i, 't) vehicle list option" "store_error option"
  | Ack "store_error option"

text \<open>
  The mounted component with its operations in flight, or the component torn down by an
  exception thrown while rendering.
\<close>

datatype ('i, 't) sys =
    Running "('i, 't) app_state" "('i, 't) pending list"
  | Unmounted js_error

text \<open>
  What can happen to the mounted component: the user edits a field, submits the form,
  clicks the call button (at clock reading \<open>now\<close>), or the store answers the \<open>k\<close>-th
  operation in flight.
\<close>

datatype ('i, 't) event =
    Change field string
  | Submit
  | Call_next 't
  | Settle nat "('i, 't) response"

text \<open>
  Resuming a suspended handler with a response: the new state, the effects, and what is
  awaited next. \<open>None\<close> when the response is not of the kind this await receives.
\<close>

fun resume ::
  "('i, 't) pending \<Rightarrow> ('i, 't) response \<Rightarrow> ('i, 't) app_state
     \<Rightarrow> (js_error + ('i, 't) app_state \<times> ('i, 't) effect list \<times> ('i, 't) pending list) option"
  where
  "resume Await_select (Rows data error) s =
     (let (s', t) = fetchQueue_resume s data error in Some (Inr (s', t, [])))"
| "resume Await_insert (Rows data error) s =
     (case handleSubmit_resume s data error of
        Inl x \<Rightarrow> Some (Inl x)
      | Inr (s', t) \<Rightarrow> Some (Inr (s', t, [])))"
| "resume (Await_update next now) (Ack updateError) s =
     Some (Inr (s, handleCallNext_insert next now, [Await_historico updateError]))"
| "resume (Await_historico updateError) (Ack historicoError) s =
     (let (s', t) = handleCallNext_finish s updateError historicoError
      in Some (Inr (s', t, [])))"
| "resume _ _ _ = None"

fun step :: "('i, 't) event \<Rightarrow> ('i, 't) sys \<Rightarrow> ('i, 't) sys \<times> ('i, 't) effect list" where
  "step _ (Unmounted x) = (Unmounted x, [])"
| "step (Change f v) (Running s ps) = (Running (handleChange f v s) ps, [])"
| "step Submit (Running s ps) =
     (if submit_disabled s \<or> \<not> placa_cavalo_required (form s) then (Running s ps, [])
      else let (s', t) = handleSubmit_start s in (Running s' (ps @ [Await_insert]), t))"
| "step (Call_next now) (Running s ps) =
     (if call_next_disabled s then (Running s ps, [])
      else case handleCallNext_start s now of
             None \<Rightarrow> (Running s ps, [])
           | Some (s', t, next) \<Rightarrow> (Running s' (ps @ [Await_update next now]), t))"
| "step (Settle k r) (Running s ps) =
     (if k < length ps then
        (case resume (ps ! k) r s of
           None \<Rightarrow> (Running s ps, [])
         | Some (Inl x) \<Rightarrow> (Unmounted x, [])
         | Some (Inr (s', t, ps')) \<Rightarrow> (Running s' (take k ps @ ps' @ drop (Suc k) ps), t))
      else (Running s ps, []))"

text \<open>
  Mounting (lines 32-48): the effect with the empty dependency list runs \<open>fetchQueue\<close> once,
  on the initial state, before any event is handled.
\<close>

definition mount :: "('i, 't) sys \<times> ('i, 't) effect list" where
  "mount = (let (s, t) = fetchQueue_start initial_state in (Running s [Await_select], t))"

fun run ::
  "('i, 't) sys \<times> ('i, 't) effect list \<Rightarrow> ('i, 't) event list
     \<Rightarrow> ('i, 't) sys \<times> ('i, 't) effect list" where
  "run c [] = c"
| "run (c, tr) (e # es) = (let (c', t) = step e c in run (c', tr @ t) es)"

text \<open>Busy exactly while something is in flight, and never more than one operation.\<close>

fun busy_inv :: "('i, 't) sys \<Rightarrow> bool" where
  "busy_inv (Running s ps) = ((loading s \<longleftrightarrow> ps \<noteq> []) \<and> length ps \<le> 1)"
| "busy_inv (Unmounted _) = True"

section \<open>The store's side of two requests\<close>

text \<open>
  The hosted store is outside the repository. What loading and submitting rely on is the
  meaning of the two requests that return rows, read off their builder calls:
  \<^verbatim>\<open>eq(col, val)\<close> keeps the rows whose text column \<open>col\<close> is \<open>val\<close>,
  \<^verbatim>\<open>order(ord, {ascending})\<close> sorts on the timestamp column \<open>ord\<close> (nulls last when
  ascending, first when descending; rows with equal keys in any order), and
  \<^verbatim>\<open>insert([row]).select('*')\<close> returns the stored row, which carries the submitted
  columns beside the identifier and the timestamps the store assigns.
\<close>

definition text_column :: "string \<Rightarrow> ('i, 't) vehicle \<Rightarrow> string option" where
  "text_column c v =
     (if c = ''placa_cavalo'' then Some (placa_cavalo v)
      else if c = ''placa_carreta'' then Some (placa_carreta v)
      else if c = ''motorista'' then Some (motorista v)
      else if c = ''origem'' then Some (origem v)
      else if c = ''destino'' then Some (destino v)
      else if c = ''tipo'' then Some (tipo v)
      else if c = ''prioridade'' then Some (prioridade v)
      else if c = ''observacoes'' then Some (observacoes v)
      else if c = ''status'' then Some (status v)
      else None)"

definition time_column :: "string \<Rightarrow> ('i, 't) vehicle \<Rightarrow> 't option" where
  "time_column c v =
     (if c = ''chegada_at'' then Some (chegada_at v)
      else if c = ''chamado_at'' then chamado_at v
      else None)"

fun nulls_last_le :: "'t::linorder option \<Rightarrow> 't option \<Rightarrow> bool" where
  "nulls_last_le (Some a) (Some b) = (a \<le> b)"
| "nulls_last_le _ None = True"
| "nulls_last_le None (Some _) = False"

text \<open>\<open>select_answer q rows rs\<close>: \<open>rs\<close> is an answer to the select \<open>q\<close> on a table holding \<open>rows\<close>.\<close>

fun select_answer ::
  "('i, 't::linorder) request \<Rightarrow> ('i, 't) vehicle list \<Rightarrow> ('i, 't) vehicle list \<Rightarrow> bool" where
  "select_answer (Select_eq_order tbl col val ord asc) rows rs =
     (mset rs = mset (filter (\<lambda>v. text_column col v = Some val) rows) \<and>
      sorted_wrt (\<lambda>a b. if asc then nulls_last_le (time_column ord a) (time_column ord b)
                        else nulls_last_le (time_column ord b) (time_column ord a)) rs)"
| "select_answer _ _ _ = False"

text \<open>\<open>insert_answer q r\<close>: \<open>r\<close> is the row the store returns for the insert \<open>q\<close>.\<close>

fun insert_answer :: "('i, 't) request \<Rightarrow> ('i, 't) vehicle \<Rightarrow> bool" where
  "insert_answer (Insert_select tbl row) r = (new_row.truncate r = row)"
| "insert_answer _ _ = False"

section \<open>Sample data\<close>

text \<open>Entries \<open>A\<close> and \<open>B\<close> waiting, \<open>A\<close> arrived first; \<open>C\<close> already called; a filled draft.\<close>

definition veiculo_A :: "(nat, nat) vehicle" where
  "veiculo_A = \<lparr>placa_cavalo = ''AAA1A11'', placa_carreta = ''CAR0001'',
     motorista = ''Ana'', origem = ''Santos'', destino = ''Campinas'', tipo = ''Bitrem'',
     prioridade = '''', observacoes = '''', status = ''Na fila'',
     id_col = 1, chegada_at = 10, chamado_at = None\<rparr>"

definition veiculo_B :: "(nat, nat) vehicle" where
  "veiculo_B = \<lparr>placa_cavalo = ''BBB2B22'', placa_carreta = '''',
     motorista = ''Beto'', origem = ''Itu'', destino = ''Santos'', tipo = '''',
     prioridade = ''Alta'', observacoes = '''', status = ''Na fila'',
     id_col = 2, chegada_at = 20, chamado_at = None\<rparr>"

definition veiculo_C :: "(nat, nat) vehicle" where
  "veiculo_C = \<lparr>placa_cavalo = ''CCC3C33'', placa_carreta = '''',
     motorista = '''', origem = '''', destino = '''', tipo = '''',
     prioridade = '''', observacoes = '''', status = ''Chamado'',
     id_col = 3, chegada_at = 5, chamado_at = Some 8\<rparr>"

definition draft_D :: draft where
  "draft_D = \<lparr>placa_cavalo = ''DDD4D44'', placa_carreta = '''', motorista = ''Davi'',
     origem = '''', destino = '''', tipo = '''', prioridade = '''', observacoes = ''''\<rparr>"

definition veiculo_D :: "(nat, nat) vehicle" where
  "veiculo_D = \<lparr>placa_cavalo = ''DDD4D44'', placa_carreta = '''', motorista = ''Davi'',
     origem = '''', destino = '''', tipo = '''', prioridade = '''', observacoes = '''',
     status = ''Na fila'', id_col = 4, chegada_at = 30, chamado_at = None\<rparr>"

definition state_AB :: "(nat, nat) app_state" where
  "state_AB = \<lparr>form = draft_D, fila = [veiculo_A, veiculo_B], loading = False\<rparr>"

section \<open>Effects\<close>

lemma calls_append: "calls (xs @ ys) = calls xs @ calls ys"
  by (induction xs rule: calls.induct) simp_all

lemma logs_append: "logs (xs @ ys) = logs xs @ logs ys"
  by (induction xs rule: logs.induct) simp_all

section \<open>Advance\<close>

text \<open>
  C8: when the local queue is empty, \<open>handleCallNext\<close> sends nothing to the store (neither
  the update nor the history insert), logs nothing, and returns the state as it was: queue,
  draft and busy flag. The same holds of a click on the call button, which is disabled.
\<close>

theorem advance_empty_noop:
  "fila s = [] \<Longrightarrow>
   handleCallNext s now updateError historicoError = (s, []) \<and>
   step (Call_next now) (Running s ps) = (Running s ps, [])"
  by (simp add: handleCallNext_def handleCallNext_start_def call_next_disabled_def)

theorem advance_empty_noop_witness:
  "fila (initial_state :: (nat, nat) app_state) = [] \<and>
   handleCallNext (initial_state :: (nat, nat) app_state) 7 (Some (Store_error ''down'')) None
     = (initial_state, []) \<and>
   step (Call_next 7) (Running (initial_state :: (nat, nat) app_state) [])
     = (Running initial_state [], [])"
  using advance_empty_noop [of "initial_state :: (nat, nat) app_state" 7
      "Some (Store_error ''down'')" None "[]"]
  by (simp add: initial_state_def)

text \<open>
  C1: when the local queue is \<open>next # rest\<close>, \<open>handleCallNext\<close> leaves exactly \<open>rest\<close> as
  the local queue, whatever the two store responses are (each may carry an error or not):
  the head is dropped and nothing is rolled back.
\<close>

theorem advance_removes_head:
  "fila s = next # rest \<Longrightarrow>
   fila (fst (handleCallNext s now updateError historicoError)) = rest"
  by (simp add: handleCallNext_def handleCallNext_start_def handleCallNext_finish_def)

theorem advance_removes_head_witness:
  "fila state_AB = veiculo_A # [veiculo_B] \<and>
   fila (fst (handleCallNext state_AB 40 (Some (Store_error ''timeout'')) None)) = [veiculo_B] \<and>
   fila (fst (handleCallNext state_AB 40 None (Some (Store_error ''denied'')))) = [veiculo_B] \<and>
   fila (fst (handleCallNext state_AB 40 (Some (Store_error ''timeout''))
     (Some (Store_error ''denied'')))) = [veiculo_B] \<and>
   fila (fst (handleCallNext state_AB 40 None None)) = [veiculo_B]"
  using
    advance_removes_head [of state_AB veiculo_A "[veiculo_B]" 40
      "Some (Store_error ''timeout'')" None]
    advance_removes_head [of state_AB veiculo_A "[veiculo_B]" 40 None
      "Some (Store_error ''denied'')"]
    advance_removes_head [of state_AB veiculo_A "[veiculo_B]" 40
      "Some (Store_error ''timeout'')" "Some (Store_error ''denied'')"]
    advance_removes_head [of state_AB veiculo_A "[veiculo_B]" 40 None None]
  by (simp add: state_AB_def)

text \<open>
  C2: when the head of the queue is \<open>next\<close>, the requests sent by \<open>handleCallNext\<close> are
  exactly two, in this order: the update of the row of \<^verbatim>\<open>fila\<close> whose id is that of \<open>next\<close>,
  setting status \<^verbatim>\<open>Chamado\<close> and \<^verbatim>\<open>chamado_at\<close> to \<open>now\<close>; and the insert into \<^verbatim>\<open>historico\<close>
  of the record with that id, action \<^verbatim>\<open>Chamado\<close>, the same \<open>now\<close>, and as payload \<open>next\<close>
  itself, the local entry as it was before the update.
\<close>

theorem advance_requests:
  "fila s = next # rest \<Longrightarrow>
   calls (snd (handleCallNext s now updateError historicoError)) =
     [Update_eq_id ''fila'' ''Chamado'' now (id_col next),
      Insert_row ''historico''
        \<lparr>veiculo_id = id_col next, acao = ''Chamado'', at = now, payload = next\<rparr>]"
  by (simp add: handleCallNext_def handleCallNext_start_def handleCallNext_insert_def
      handleCallNext_finish_def calls_append split: option.split)

theorem advance_requests_witness:
  "fila state_AB = veiculo_A # [veiculo_B] \<and>
   calls (snd (handleCallNext state_AB 40 None None)) =
     [Update_eq_id ''fila'' ''Chamado'' 40 1,
      Insert_row ''historico''
        \<lparr>veiculo_id = 1, acao = ''Chamado'', at = 40, payload = veiculo_A\<rparr>] \<and>
   status veiculo_A = ''Na fila'' \<and> chamado_at veiculo_A = None"
  using advance_requests [of state_AB veiculo_A "[veiculo_B]" 40 None None]
  by (simp add: state_AB_def veiculo_A_def)

text \<open>
  C3: on a non-empty queue both writes are sent whatever the responses are: the requests
  are those of a run in which neither write fails, one update followed by one insert, so
  that a failed update neither suppresses nor repeats the insert, nor the other way round.
  Each error is logged on its own: the console lines are the update's line if the update
  failed, followed by the history line if the insert failed.
\<close>

theorem advance_writes_independent:
  "fila s \<noteq> [] \<Longrightarrow>
   calls (snd (handleCallNext s now updateError historicoError)) =
     calls (snd (handleCallNext s now None None)) \<and>
   (\<exists>i h. calls (snd (handleCallNext s now updateError historicoError)) =
      [Update_eq_id ''fila'' ''Chamado'' now i, Insert_row ''historico'' h]) \<and>
   logs (snd (handleCallNext s now updateError historicoError)) =
     (case updateError of None \<Rightarrow> []
      | Some e \<Rightarrow> [(erro_chamar_veiculo, Some (message e))]) @
     (case historicoError of None \<Rightarrow> []
      | Some e \<Rightarrow> [(erro_registrar_historico, Some (message e))])"
  by (cases "fila s")
    (simp_all add: handleCallNext_def handleCallNext_start_def handleCallNext_insert_def
      handleCallNext_finish_def calls_append logs_append split: option.split)

theorem advance_writes_independent_witness:
  "fila state_AB \<noteq> [] \<and>
   calls (snd (handleCallNext state_AB 40 (Some (Store_error ''timeout'')) None)) =
     calls (snd (handleCallNext state_AB 40 None None)) \<and>
   logs (snd (handleCallNext state_AB 40 (Some (Store_error ''timeout'')) None)) =
     [(erro_chamar_veiculo, Some ''timeout'')] \<and>
   logs (snd (handleCallNext state_AB 40 None (Some (Store_error ''denied'')))) =
     [(erro_registrar_historico, Some ''denied'')]"
  using
    advance_writes_independent [of state_AB 40 "Some (Store_error ''timeout'')" None]
    advance_writes_independent [of state_AB 40 None "Some (Store_error ''denied'')"]
  by (simp add: state_AB_def)

section \<open>Load\<close>

lemma fetchQueue_success:
  "fetchQueue s (Some rs) None =
     (s\<lparr>fila := rs, loading := False\<rparr>,
      [Call (Select_eq_order ''fila'' ''status'' ''Na fila'' ''chegada_at'' True)])"
  by (simp add: fetchQueue_def fetchQueue_start_def fetchQueue_resume_def)

lemma fetchQueue_error:
  "fetchQueue s data (Some e) =
     (s\<lparr>loading := False\<rparr>,
      [Call (Select_eq_order ''fila'' ''status'' ''Na fila'' ''chegada_at'' True),
       Console_error erro_buscar_fila (Some (message e))])"
  by (simp add: fetchQueue_def fetchQueue_start_def fetchQueue_resume_def)

text \<open>The select of \<open>fetchQueue\<close> asks for the waiting rows in order of arrival.\<close>

lemma select_answer_fila:
  "select_answer (Select_eq_order ''fila'' ''status'' ''Na fila'' ''chegada_at'' True) rows rs
   \<longleftrightarrow> mset rs = mset (filter (\<lambda>v. status v = ''Na fila'') rows) \<and>
       sorted (map chegada_at rs)"
  by (simp add: text_column_def time_column_def sorted_map)

text \<open>
  C4: a load sends one select. When it succeeds with \<open>rs\<close>, an answer of the store to that
  select on a table holding \<open>rows\<close>, the local queue becomes \<open>rs\<close>, which is exactly the rows
  of the table with status \<^verbatim>\<open>Na fila\<close> (as a multiset), sorted ascending by \<^verbatim>\<open>chegada_at\<close>.
  When it fails with error \<open>e\<close>, the message of \<open>e\<close> is logged and the state differs from the
  prior one in the busy flag alone: the local queue keeps its value.
\<close>

theorem load_replaces_or_keeps:
  "(\<forall>q. calls (snd (fetchQueue_start s)) = [q] \<and> select_answer q rows rs \<longrightarrow>
      fetchQueue s (Some rs) None = (s\<lparr>fila := rs, loading := False\<rparr>, [Call q]) \<and>
      mset rs = mset (filter (\<lambda>v. status v = ''Na fila'') rows) \<and>
      sorted (map chegada_at rs)) \<and>
   fetchQueue s data (Some e) =
     (s\<lparr>loading := False\<rparr>,
      [Call (Select_eq_order ''fila'' ''status'' ''Na fila'' ''chegada_at'' True),
       Console_error erro_buscar_fila (Some (message e))])"
  using select_answer_fila [of rows rs]
  by (simp add: fetchQueue_success fetchQueue_error fetchQueue_start_def)

theorem load_replaces_or_keeps_witness:
  "calls (snd (fetchQueue_start (initial_state :: (nat, nat) app_state))) =
     [Select_eq_order ''fila'' ''status'' ''Na fila'' ''chegada_at'' True] \<and>
   select_answer (Select_eq_order ''fila'' ''status'' ''Na fila'' ''chegada_at'' True)
     [veiculo_B, veiculo_C, veiculo_A] [veiculo_A, veiculo_B] \<and>
   fetchQueue initial_state (Some [veiculo_A, veiculo_B]) None =
     (\<lparr>form = initialForm, fila = [veiculo_A, veiculo_B], loading = False\<rparr>,
      [Call (Select_eq_order ''fila'' ''status'' ''Na fila'' ''chegada_at'' True)]) \<and>
   fetchQueue state_AB None (Some (Store_error ''offline'')) =
     (state_AB,
      [Call (Select_eq_order ''fila'' ''status'' ''Na fila'' ''chegada_at'' True),
       Console_error erro_buscar_fila (Some ''offline'')])"
proof -
  have h1: "calls (snd (fetchQueue_start (initial_state :: (nat, nat) app_state))) =
     [Select_eq_order ''fila'' ''status'' ''Na fila'' ''chegada_at'' True]"
    by (simp add: fetchQueue_start_def)
  have h2: "select_answer (Select_eq_order ''fila'' ''status'' ''Na fila'' ''chegada_at'' True)
     [veiculo_B, veiculo_C, veiculo_A] [veiculo_A, veiculo_B]"
    by (simp add: text_column_def time_column_def veiculo_A_def veiculo_B_def veiculo_C_def)
  note t1 = load_replaces_or_keeps [of "initial_state :: (nat, nat) app_state"
      "[veiculo_B, veiculo_C, veiculo_A]" "[veiculo_A, veiculo_B]" None
      "Store_error ''offline''"]
  note t2 = load_replaces_or_keeps [of state_AB "[]" "[]" None "Store_error ''offline''"]
  from t1 h1 h2 have ok: "fetchQueue (initial_state :: (nat, nat) app_state)
      (Some [veiculo_A, veiculo_B]) None =
     (initial_state\<lparr>fila := [veiculo_A, veiculo_B], loading := False\<rparr>,
      [Call (Select_eq_order ''fila'' ''status'' ''Na fila'' ''chegada_at'' True)])"
    by blast
  from t2 have ko: "fetchQueue state_AB None (Some (Store_error ''offline'')) =
     (state_AB\<lparr>loading := False\<rparr>,
      [Call (Select_eq_order ''fila'' ''status'' ''Na fila'' ''chegada_at'' True),
       Console_error erro_buscar_fila (Some (message (Store_error ''offline'')))])"
    by blast
  from h1 h2 ok ko show ?thesis
    by (simp add: initial_state_def state_AB_def)
qed

section \<open>Submit\<close>

lemma handleSubmit_success:
  "handleSubmit s (Some (r # rs)) None =
     Inr (s\<lparr>fila := fila s @ [r], form := initialForm, loading := False\<rparr>,
          [Call (Insert_select ''fila'' (row_of_form (form s)))])"
  by (simp add: handleSubmit_def handleSubmit_start_def handleSubmit_resume_def)

lemma handleSubmit_error:
  "handleSubmit s data (Some e) =
     Inr (s\<lparr>loading := False\<rparr>,
          [Call (Insert_select ''fila'' (row_of_form (form s))),
           Console_error erro_inserir_veiculo (Some (message e))])"
  by (simp add: handleSubmit_def handleSubmit_start_def handleSubmit_resume_def
      split: option.split list.split)

text \<open>The row the store returns for the insert of \<open>handleSubmit\<close> is a waiting one.\<close>

lemma insert_answer_status:
  assumes "insert_answer (Insert_select tbl (row_of_form d)) r"
  shows "status r = ''Na fila''"
proof -
  from assms have "new_row.truncate r = row_of_form d"
    by simp
  then have "status (new_row.truncate r) = status (row_of_form d)"
    by simp
  then show ?thesis
    by (simp add: new_row.truncate_def row_of_form_def draft.extend_def new_row.fields_def)
qed

text \<open>
  C5: take a submit that goes through: the tractor plate of the draft is not empty and the
  component is not busy. If the insert succeeds, returning the stored row \<open>r\<close> first, then
  \<open>r\<close>, whose status is \<^verbatim>\<open>Na fila\<close>, is appended to the end of the local queue, nothing else
  is, and the draft becomes \<open>initialForm\<close>. If the insert fails with error \<open>e\<close>, the message of
  \<open>e\<close> is logged and the state is the prior one: draft and queue untouched.
\<close>

theorem submit_appends_or_keeps:
  assumes "placa_cavalo (form s) \<noteq> ''''" and "\<not> loading s"
  shows "(\<forall>q r rs. calls (snd (handleSubmit_start s)) = [q] \<and> insert_answer q r \<longrightarrow>
            form_onSubmit s (Some (r # rs)) None =
              Inr (s\<lparr>fila := fila s @ [r], form := initialForm\<rparr>, [Call q]) \<and>
            status r = ''Na fila'') \<and>
         (\<forall>e. form_onSubmit s data (Some e) =
            Inr (s, [Call (Insert_select ''fila'' (row_of_form (form s))),
                     Console_error erro_inserir_veiculo (Some (message e))]))"
proof -
  have open_form: "form_onSubmit s d x = handleSubmit s d x" for d x
    using assms by (simp add: form_onSubmit_def submit_disabled_def placa_cavalo_required_def)
  have same: "s\<lparr>loading := False\<rparr> = s"
    using assms(2) by simp
  have ok: "form_onSubmit s (Some (r # rs)) None =
              Inr (s\<lparr>fila := fila s @ [r], form := initialForm\<rparr>, [Call q]) \<and>
            status r = ''Na fila''"
    if q: "calls (snd (handleSubmit_start s)) = [q]" and a: "insert_answer q r" for q r rs
  proof -
    from q have q_def: "q = Insert_select ''fila'' (row_of_form (form s))"
      by (simp add: handleSubmit_start_def)
    have "s\<lparr>fila := fila s @ [r], form := initialForm, loading := False\<rparr> =
          s\<lparr>fila := fila s @ [r], form := initialForm\<rparr>"
      using assms(2) by simp
    then show ?thesis
      using a insert_answer_status [of "''fila''" "form s" r]
      by (simp add: open_form handleSubmit_success q_def)
  qed
  have ko: "form_onSubmit s data (Some e) =
            Inr (s, [Call (Insert_select ''fila'' (row_of_form (form s))),
                     Console_error erro_inserir_veiculo (Some (message e))])" for e
    by (simp add: open_form handleSubmit_error same)
  from ok ko show ?thesis by blast
qed

theorem submit_appends_or_keeps_witness:
  "placa_cavalo (form state_AB) \<noteq> '''' \<and> \<not> loading state_AB \<and>
   calls (snd (handleSubmit_start state_AB)) = [Insert_select ''fila'' (row_of_form draft_D)] \<and>
   insert_answer (Insert_select ''fila'' (row_of_form draft_D)) veiculo_D \<and>
   form_onSubmit state_AB (Some [veiculo_D]) None =
     Inr (\<lparr>form = initialForm, fila = [veiculo_A, veiculo_B, veiculo_D], loading = False\<rparr>,
          [Call (Insert_select ''fila'' (row_of_form draft_D))]) \<and>
   status veiculo_D = ''Na fila'' \<and>
   form_onSubmit state_AB None (Some (Store_error ''denied'')) =
     Inr (state_AB,
          [Call (Insert_select ''fila'' (row_of_form draft_D)),
           Console_error erro_inserir_veiculo (Some ''denied'')])"
proof -
  have h1: "placa_cavalo (form state_AB) \<noteq> ''''"
    by (simp add: state_AB_def draft_D_def)
  have h2: "\<not> loading state_AB"
    by (simp add: state_AB_def)
  have h3: "calls (snd (handleSubmit_start state_AB)) =
              [Insert_select ''fila'' (row_of_form draft_D)]"
    by (simp add: handleSubmit_start_def state_AB_def)
  have h4: "insert_answer (Insert_select ''fila'' (row_of_form draft_D)) veiculo_D"
    by (simp add: row_of_form_def draft_D_def veiculo_D_def new_row.truncate_def
        draft.extend_def new_row.fields_def)
  note t = submit_appends_or_keeps [OF h1 h2, of None]
  from t h3 h4 have ok: "form_onSubmit state_AB (Some [veiculo_D]) None =
      Inr (state_AB\<lparr>fila := fila state_AB @ [veiculo_D], form := initialForm\<rparr>,
           [Call (Insert_select ''fila'' (row_of_form draft_D))]) \<and>
      status veiculo_D = ''Na fila''"
    by blast
  from t have ko: "form_onSubmit state_AB None (Some (Store_error ''denied'')) =
      Inr (state_AB,
           [Call (Insert_select ''fila'' (row_of_form (form state_AB))),
            Console_error erro_inserir_veiculo (Some (message (Store_error ''denied'')))])"
    by blast
  from h1 h2 h3 h4 ok ko show ?thesis
    by (simp add: state_AB_def)
qed

text \<open>
  C6: when the tractor plate of the draft is the empty string, a submission of the form
  stops at the required field: no request is sent, nothing is logged and the state is
  unchanged, in the whole submission as in the step that would start it.
\<close>

theorem submit_empty_plate_rejected:
  "placa_cavalo (form s) = '''' \<Longrightarrow>
   form_onSubmit s data error = Inr (s, []) \<and>
   step Submit (Running s ps) = (Running s ps, [])"
  by (simp add: form_onSubmit_def placa_cavalo_required_def)

theorem submit_empty_plate_rejected_witness:
  "placa_cavalo (form (initial_state :: (nat, nat) app_state)) = '''' \<and>
   form_onSubmit (initial_state :: (nat, nat) app_state) (Some [veiculo_D]) None
     = Inr (initial_state, []) \<and>
   step Submit (Running (initial_state :: (nat, nat) app_state) [])
     = (Running initial_state [], [])"
  using submit_empty_plate_rejected [of "initial_state :: (nat, nat) app_state"
      "Some [veiculo_D]" None "[]"]
  by (simp add: initial_state_def initialForm_def)

text \<open>
  C10: when the insert of \<open>handleSubmit\<close> answers with neither an error nor data, the
  handler takes the failure branch: after the request it logs the insert prefix (with an
  undefined message), and the state differs from the prior one in the busy flag alone, so
  that nothing is appended to the queue and the draft is as it was.
\<close>

theorem submit_null_data_is_failure:
  "handleSubmit s None None =
     Inr (s\<lparr>loading := False\<rparr>,
          [Call (Insert_select ''fila'' (row_of_form (form s))),
           Console_error erro_inserir_veiculo None])"
  by (simp add: handleSubmit_def handleSubmit_start_def handleSubmit_resume_def)

section \<open>The busy flag\<close>

lemma step_busy_inv:
  assumes inv: "busy_inv c"
  shows "busy_inv (fst (step e c))"
proof (cases c)
  case (Unmounted x)
  then show ?thesis by simp
next
  case (Running s ps)
  show ?thesis
  proof (cases e)
    case (Change f v)
    with Running inv show ?thesis by (simp add: handleChange_def)
  next
    case Submit
    with Running inv show ?thesis
      by (simp add: submit_disabled_def handleSubmit_start_def)
  next
    case (Call_next now)
    with Running inv show ?thesis
      by (simp add: call_next_disabled_def handleCallNext_start_def split: list.split)
  next
    case (Settle k r)
    show ?thesis
    proof (cases "k < length ps")
      case False
      with Running Settle inv show ?thesis by simp
    next
      case True
      with Running inv obtain p where ps: "ps = [p]" and k: "k = 0" and busy: "loading s"
        by (cases ps) auto
      show ?thesis
        using Running Settle ps k busy
        by (cases p; cases r)
          (simp_all add: fetchQueue_resume_def handleSubmit_resume_def
            handleCallNext_finish_def split: option.split list.split)
    qed
  qed
qed

lemma run_busy_inv: "busy_inv (fst c) \<Longrightarrow> busy_inv (fst (run c evs))"
proof (induction evs arbitrary: c)
  case Nil
  then show ?case by simp
next
  case (Cons e es)
  obtain st tr where c: "c = (st, tr)" by (cases c)
  obtain st' t where st: "step e st = (st', t)" by (cases "step e st")
  from Cons.prems c have "busy_inv st" by simp
  then have "busy_inv st'" using step_busy_inv [of st e] st by simp
  then have "busy_inv (fst (run (st', tr @ t) es))" using Cons.IH by simp
  with c st show ?case by simp
qed

lemma mount_busy_inv: "busy_inv (fst mount)"
  by (simp add: mount_def fetchQueue_start_def)

text \<open>
  C7: in every state the mounted component reaches, by any sequence of edits, submissions,
  clicks on the call button and store responses, the busy flag is true exactly when an
  operation is in flight (so true as long as one is, and false at rest), at most one
  operation is in flight, and while the flag is true a submission and a click on the call
  button start nothing: each is stopped by its disabled button before any request, and
  leaves the state as it is.
\<close>

theorem busy_flag_guards:
  "fst (run mount evs) = Running s ps \<Longrightarrow>
   (loading s \<longleftrightarrow> ps \<noteq> []) \<and> length ps \<le> 1 \<and>
   (loading s \<longrightarrow>
      step Submit (Running s ps) = (Running s ps, []) \<and>
      step (Call_next now) (Running s ps) = (Running s ps, []))"
  using run_busy_inv [OF mount_busy_inv, of evs]
  by (simp add: submit_disabled_def call_next_disabled_def)

theorem busy_flag_guards_witness:
  "fst (run mount [Change Placa_cavalo ''DDD4D44'',
                   Settle 0 (Rows (Some [veiculo_A, veiculo_B]) None),
                   Call_next 40]) =
     Running \<lparr>form = initialForm\<lparr>placa_cavalo := ''DDD4D44''\<rparr>,
              fila = [veiculo_A, veiculo_B], loading = True\<rparr> [Await_update veiculo_A 40] \<and>
   step Submit
     (Running \<lparr>form = initialForm\<lparr>placa_cavalo := ''DDD4D44''\<rparr>,
               fila = [veiculo_A, veiculo_B], loading = True\<rparr> [Await_update veiculo_A 40]) =
     (Running \<lparr>form = initialForm\<lparr>placa_cavalo := ''DDD4D44''\<rparr>,
               fila = [veiculo_A, veiculo_B], loading = True\<rparr> [Await_update veiculo_A 40], []) \<and>
   step (Call_next 41)
     (Running \<lparr>form = initialForm\<lparr>placa_cavalo := ''DDD4D44''\<rparr>,
               fila = [veiculo_A, veiculo_B], loading = True\<rparr> [Await_update veiculo_A 40]) =
     (Running \<lparr>form = initialForm\<lparr>placa_cavalo := ''DDD4D44''\<rparr>,
               fila = [veiculo_A, veiculo_B], loading = True\<rparr> [Await_update veiculo_A 40], [])"
proof -
  have r: "fst (run mount [Change Placa_cavalo ''DDD4D44'',
                   Settle 0 (Rows (Some [veiculo_A, veiculo_B]) None),
                   Call_next 40]) =
     Running \<lparr>form = initialForm\<lparr>placa_cavalo := ''DDD4D44''\<rparr>,
              fila = [veiculo_A, veiculo_B], loading = True\<rparr> [Await_update veiculo_A 40]"
    by (simp add: mount_def fetchQueue_start_def initial_state_def handleChange_def
        fetchQueue_resume_def call_next_disabled_def handleCallNext_start_def)
  from busy_flag_guards [OF r, of 41] r show ?thesis
    by simp
qed

end
